theory Spec2Isabelle
  imports Main "HOL-Library.AList"
begin

section \<open>Values of the interpreter\<close>

text \<open>
  The scripts \<^verbatim>\<open>examine_excel.py\<close> and \<^verbatim>\<open>examine_soccer.py\<close> read a workbook and print a
  report of it; this theory follows the two of them statement by statement. (The third
  script, \<^verbatim>\<open>check_worksheets.py\<close>, only lists the sheets and is not treated.) A string is
  a list of code points below 256. An exception is a value of \<open>py_error\<close>; a computation
  that may raise returns \<open>py_error + 'a\<close>, with \<open>Inl\<close> the raised exception.
\<close>

datatype py_error = ValueError | IndexError | KeyError | ZeroDivisionError
  | FileNotFoundError | InvalidFileException

text \<open>
  A cell value as the scripts observe it: \<^verbatim>\<open>None\<close>, a string, an integer, a boolean, or any
  other object (a float, a date), of which the scripts only use the truth value and the
  text that \<^verbatim>\<open>str\<close> gives.
\<close>

datatype cell = CNone | CStr string | CInt int | CBool bool | COther bool string

text \<open>The truth value that \<^verbatim>\<open>if date_str:\<close> tests.\<close>

fun truthy :: "cell \<Rightarrow> bool" where
  "truthy CNone = False"
| "truthy (CStr s) = (s \<noteq> [])"
| "truthy (CInt n) = (n \<noteq> 0)"
| "truthy (CBool b) = b"
| "truthy (COther t r) = t"

definition digit_char :: "nat \<Rightarrow> char" where
  "digit_char d = char_of (48 + d)"

fun str_nat :: "nat \<Rightarrow> string" where
  "str_nat n = (if n < 10 then [digit_char n] else str_nat (n div 10) @ [digit_char (n mod 10)])"

declare str_nat.simps [simp del]

text \<open>The builtin \<^verbatim>\<open>str\<close>.\<close>

fun py_str :: "cell \<Rightarrow> string" where
  "py_str CNone = ''None''"
| "py_str (CStr s) = s"
| "py_str (CInt n) = (if n < 0 then CHR ''-'' # str_nat (nat (- n)) else str_nat (nat n))"
| "py_str (CBool b) = (if b then ''True'' else ''False'')"
| "py_str (COther t r) = r"

subsection \<open>\<^verbatim>\<open>str.split\<close> with a one-character separator\<close>

text \<open>
  \<^verbatim>\<open>s.split(sep)\<close> cuts at every occurrence of the separator and keeps empty pieces; the
  result is never the empty list (\<^verbatim>\<open>"".split('.')\<close> is \<^verbatim>\<open>['']\<close>).
\<close>

fun py_split :: "char \<Rightarrow> string \<Rightarrow> string list" where
  "py_split sep [] = [[]]"
| "py_split sep (c # cs) =
     (if c = sep then [] # py_split sep cs
      else (case py_split sep cs of
              [] \<Rightarrow> [[c]]
            | w # ws \<Rightarrow> (c # w) # ws))"

text \<open>
  Subscription \<^verbatim>\<open>xs[i]\<close>: an index below zero counts from the end, and an index outside
  the list raises.
\<close>

definition py_get :: "'a list \<Rightarrow> int \<Rightarrow> py_error + 'a" where
  "py_get xs i =
     (if 0 \<le> i \<and> i < int (length xs) then Inr (xs ! nat i)
      else if i < 0 \<and> - int (length xs) \<le> i then Inr (xs ! nat (int (length xs) + i))
      else Inl IndexError)"

subsection \<open>The builtin \<^verbatim>\<open>int\<close> on a string\<close>

text \<open>
  \<^verbatim>\<open>int(s)\<close> in base 10: white space around the number is dropped, one sign may lead, and
  the digits may be separated by single underscores. Anything else raises
  \<^verbatim>\<open>ValueError\<close>, and so does a number of more than 4300 digits (the interpreter's default
  limit on conversions).
\<close>

definition int_space :: "char \<Rightarrow> bool" where
  "int_space c = ((of_char c :: nat) \<in> {9, 10, 11, 12, 13, 32, 133, 160})"

definition is_digit :: "char \<Rightarrow> bool" where
  "is_digit c = (48 \<le> (of_char c :: nat) \<and> (of_char c :: nat) \<le> 57)"

definition digit_val :: "char \<Rightarrow> nat" where
  "digit_val c = of_char c - 48"

definition int_strip :: "string \<Rightarrow> string" where
  "int_strip s = rev (dropWhile int_space (rev (dropWhile int_space s)))"

text \<open>
  The digits, last one first; \<open>prev\<close> says that the character before was a digit, which an
  underscore and the end of the string both need.
\<close>

fun scan_digits :: "bool \<Rightarrow> nat list \<Rightarrow> string \<Rightarrow> nat list option" where
  "scan_digits prev acc [] = (if prev then Some acc else None)"
| "scan_digits prev acc (c # cs) =
     (if is_digit c then scan_digits True (digit_val c # acc) cs
      else if c = CHR ''_'' \<and> prev then scan_digits False acc cs
      else None)"

definition digits_value :: "nat list \<Rightarrow> int" where
  "digits_value ds = foldr (\<lambda>d v. int d + 10 * v) ds 0"

definition int_max_str_digits :: nat where
  "int_max_str_digits = 4300"

definition py_int_unsigned :: "string \<Rightarrow> py_error + int" where
  "py_int_unsigned body =
     (case scan_digits False [] body of
        None \<Rightarrow> Inl ValueError
      | Some ds \<Rightarrow>
          if int_max_str_digits < length ds then Inl ValueError
          else Inr (digits_value ds))"

definition py_int :: "string \<Rightarrow> py_error + int" where
  "py_int s =
     (case int_strip s of
        [] \<Rightarrow> Inl ValueError
      | c # cs \<Rightarrow>
          if c = CHR ''-'' then map_sum id uminus (py_int_unsigned cs)
          else if c = CHR ''+'' then py_int_unsigned cs
          else py_int_unsigned (c # cs))"

section \<open>The "matches today" count\<close>

text \<open>
  Both \<^verbatim>\<open>examine_excel.py\<close> (lines 76 to 85) and \<^verbatim>\<open>examine_soccer.py\<close> (lines 63 to 72)
  run the same loop over the cells of column 5:
  \<^verbatim>\<open>
    if date_str:
        date_str = str(date_str)
        try:
            day = int(date_str.split('.')[0].split(' ')[0])
            if day == current_day:
                today_count += 1
        except:
            pass
  \<close>
\<close>

text \<open>The expression \<^verbatim>\<open>date_str.split('.')[0].split(' ')[0]\<close>.\<close>

definition first_token :: "string \<Rightarrow> py_error + string" where
  "first_token s =
     (case py_get (py_split CHR ''.'' s) 0 of
        Inl e \<Rightarrow> Inl e
      | Inr p \<Rightarrow> py_get (py_split CHR '' '' p) 0)"

text \<open>The first statement of the \<^verbatim>\<open>try\<close> block.\<close>

definition parse_day :: "string \<Rightarrow> py_error + int" where
  "parse_day s = (case first_token s of Inl e \<Rightarrow> Inl e | Inr t \<Rightarrow> py_int t)"

text \<open>
  The body of the loop for one cell: the new value of \<^verbatim>\<open>today_count\<close>, or the exception
  that leaves the loop. The bare \<^verbatim>\<open>except: pass\<close> turns every exception of the
  \<^verbatim>\<open>try\<close> block into "count unchanged".
\<close>

definition today_step :: "int \<Rightarrow> cell \<Rightarrow> nat \<Rightarrow> py_error + nat" where
  "today_step current_day date_str today_count =
     (if truthy date_str then
        (case parse_day (py_str date_str) of
           Inl e \<Rightarrow> Inr today_count
         | Inr day \<Rightarrow> Inr (if day = current_day then today_count + 1 else today_count))
      else Inr today_count)"

text \<open>Whether one cell is counted.\<close>

definition matches_today :: "int \<Rightarrow> cell \<Rightarrow> bool" where
  "matches_today current_day v = (today_step current_day v 0 = Inr 1)"

section \<open>Workbooks\<close>

text \<open>
  What the scripts read of a worksheet of the spreadsheet library: its title, the text of
  its dimensions, its extents and the values of its cells. \<^verbatim>\<open>ws.cell(row, col)\<close> rejects a
  row or a column below 1, and otherwise gives the cell, creating an empty one where the
  sheet has none, so that the extents grow to cover it.
\<close>

record worksheet =
  title :: string
  dimensions :: string
  max_row :: int
  max_column :: int
  value_at :: "int \<Rightarrow> int \<Rightarrow> cell"

definition touch :: "worksheet \<Rightarrow> int \<Rightarrow> int \<Rightarrow> worksheet" where
  "touch ws row col =
     ws\<lparr>max_row := max (max_row ws) row, max_column := max (max_column ws) col\<rparr>"

definition ws_cell :: "worksheet \<Rightarrow> int \<Rightarrow> int \<Rightarrow> py_error + (cell \<times> worksheet)" where
  "ws_cell ws row col =
     (if row < 1 \<or> col < 1 then Inl ValueError
      else Inr (value_at ws row col, touch ws row col))"

text \<open>
  A loaded workbook: its worksheets in order, and the active one, which
  \<^verbatim>\<open>examine_excel\<close> takes to be a worksheet.
\<close>

record workbook =
  worksheets :: "worksheet list"
  active :: worksheet

text \<open>The three places where \<^verbatim>\<open>examine_excel.py\<close> looks for the file.\<close>

datatype path = ScriptResources | ScriptWebResources | CwdResources

datatype disk_file = Unreadable | Xlsx workbook

definition load_workbook :: "(path \<Rightarrow> disk_file option) \<Rightarrow> path \<Rightarrow> py_error + workbook" where
  "load_workbook fs p =
     (case fs p of
        None \<Rightarrow> Inl FileNotFoundError
      | Some Unreadable \<Rightarrow> Inl InvalidFileException
      | Some (Xlsx wb) \<Rightarrow> Inr wb)"

text \<open>\<^verbatim>\<open>wb["soccer"]\<close>: the first worksheet with that title, or \<^verbatim>\<open>KeyError\<close>.\<close>

definition wb_getitem :: "workbook \<Rightarrow> string \<Rightarrow> py_error + worksheet" where
  "wb_getitem wb key =
     (case find (\<lambda>sh. title sh = key) (worksheets wb) of
        None \<Rightarrow> Inl KeyError
      | Some sh \<Rightarrow> Inr sh)"

section \<open>Reports\<close>

text \<open>
  What a placeholder of a report line shows: a cell value or a text of the script's own.
  A printed line keeps the data it shows; headings stand for the fixed texts, and the
  rulers between them are left out.
\<close>

datatype shown = Val cell | Txt string

datatype line =
    Heading string
  | NotFoundAt path
  | FoundAt path
  | ErrorExamining py_error
  | AnalysisOf path
  | SheetName string
  | Dimensions string
  | Extents int int
  | HeaderLine int cell
  | RowTitle int
  | SampleField int shown cell
  | MappingLine int string shown shown
  | TotalRows int
  | TodayLine int nat
  | TotalMatches int
  | NullLine shown nat int

text \<open>
  The variables of a script while it runs. An exception that leaves the script carries
  what was printed before it.
\<close>

record st =
  sheet :: worksheet
  out :: "line list"
  headers :: "cell list"
  today_count :: nat
  null_counts :: "(shown \<times> nat) list"

type_synonym 'a run = "(py_error \<times> line list) + 'a"

definition raise_in :: "st \<Rightarrow> py_error + 'a \<Rightarrow> ('a \<Rightarrow> 'b run) \<Rightarrow> 'b run" where
  "raise_in s m k = (case m of Inl e \<Rightarrow> Inl (e, out s) | Inr x \<Rightarrow> k x)"

definition print :: "line \<Rightarrow> st \<Rightarrow> st" where
  "print l s = s\<lparr>out := out s @ [l]\<rparr>"

text \<open>A \<^verbatim>\<open>for\<close> loop over a list fixed when the loop starts.\<close>

fun for_each :: "'a list \<Rightarrow> ('a \<Rightarrow> st \<Rightarrow> st run) \<Rightarrow> st \<Rightarrow> st run" where
  "for_each [] body s = Inr s"
| "for_each (x # xs) body s =
     (case body x s of Inl e \<Rightarrow> Inl e | Inr s' \<Rightarrow> for_each xs body s')"

text \<open>\<^verbatim>\<open>range(a, b)\<close>.\<close>

definition py_range :: "int \<Rightarrow> int \<Rightarrow> int list" where
  "py_range a b = [a..b - 1]"

text \<open>\<^verbatim>\<open>headers[col-1] if col-1 < len(headers) else dflt\<close>.\<close>

definition header_or :: "cell list \<Rightarrow> int \<Rightarrow> string \<Rightarrow> py_error + shown" where
  "header_or hs col dflt =
     (if col - 1 < int (length hs) then map_sum id Val (py_get hs (col - 1))
      else Inr (Txt dflt))"

text \<open>\<^verbatim>\<open>str.strip\<close>, which drops what \<^verbatim>\<open>str.isspace\<close> accepts.\<close>

definition str_space :: "char \<Rightarrow> bool" where
  "str_space c = ((of_char c :: nat) \<in> {9, 10, 11, 12, 13, 28, 29, 30, 31, 32, 133, 160})"

definition py_strip :: "string \<Rightarrow> string" where
  "py_strip s = rev (dropWhile str_space (rev (dropWhile str_space s)))"

definition prints :: "line list \<Rightarrow> st \<Rightarrow> st" where
  "prints ls s = s\<lparr>out := out s @ ls\<rparr>"

definition then_run :: "'a run \<Rightarrow> ('a \<Rightarrow> 'b run) \<Rightarrow> 'b run" where
  "then_run m k = (case m of Inl e \<Rightarrow> Inl e | Inr x \<Rightarrow> k x)"

text \<open>The exit status of the interpreter: 1 when an exception leaves the script.\<close>

definition exit_code :: "'a run \<Rightarrow> int" where
  "exit_code r = (case r of Inl e \<Rightarrow> 1 | Inr x \<Rightarrow> 0)"

section \<open>The column mapping\<close>

text \<open>The dictionary \<^verbatim>\<open>column_mapping\<close> of \<^verbatim>\<open>examine_excel.py\<close> (lines 44 to 57).\<close>

definition column_mapping_excel :: "(int \<times> string) list" where
  "column_mapping_excel =
     [(2, ''HomeTeam''), (3, ''AwayTeam''), (4, ''League''), (5, ''Date/Time''),
      (6, ''HomeWin''), (7, ''Draw''), (8, ''AwayWin''),
      (18, ''OverTwoGoals''), (22, ''OverThreeGoals''), (24, ''OverFourGoals''),
      (34, ''UnderTwoGoals''), (38, ''UnderThreeGoals'')]"

text \<open>The dictionary \<^verbatim>\<open>column_mapping\<close> of \<^verbatim>\<open>examine_soccer.py\<close> (lines 25 to 38).\<close>

definition column_mapping_soccer :: "(int \<times> string) list" where
  "column_mapping_soccer =
     [(2, ''HomeTeam''), (3, ''AwayTeam''), (4, ''League''), (5, ''Date/Time''),
      (6, ''HomeWin (1x2_h)''), (7, ''Draw (1x2_d)''), (8, ''AwayWin (1x2_a)''),
      (18, ''OverTwoGoals (o_2.5)''), (22, ''OverThreeGoals (o_3)''),
      (24, ''OverFourGoals (o_4)''), (34, ''UnderTwoGoals (u_2.5)''),
      (38, ''UnderThreeGoals (u_3)'')]"

text \<open>\<^verbatim>\<open>sorted(column_mapping.items())\<close>; the keys of a dictionary are distinct.\<close>

definition sorted_items :: "(int \<times> string) list \<Rightarrow> (int \<times> string) list" where
  "sorted_items m = sort_key fst m"

section \<open>The steps shared by the two reports\<close>

text \<open>One round of the loop that reads the header row.\<close>

definition header_row :: "int \<Rightarrow> st \<Rightarrow> st run" where
  "header_row col s =
     raise_in s (ws_cell (sheet s) 1 col) (\<lambda>(v, ws').
       Inr (print (HeaderLine col v) (s\<lparr>sheet := ws', headers := headers s @ [v]\<rparr>)))"

text \<open>
  One round of the loop over the sorted mapping; \<open>dflt\<close> is the text shown for a column
  beyond the headers read.
\<close>

definition mapping_row :: "string \<Rightarrow> int \<times> string \<Rightarrow> st \<Rightarrow> st run" where
  "mapping_row dflt item s =
     (case item of (col_num, field_name) \<Rightarrow>
        raise_in s (header_or (headers s) col_num dflt) (\<lambda>header.
          if 2 \<le> max_row (sheet s) then
            raise_in s (ws_cell (sheet s) 2 col_num) (\<lambda>(v, ws').
              Inr (print (MappingLine col_num field_name header (Val v)) (s\<lparr>sheet := ws'\<rparr>)))
          else Inr (print (MappingLine col_num field_name header (Txt ''N/A'')) s)))"

text \<open>The loop \<^verbatim>\<open>for col_num, field_name in sorted(column_mapping.items())\<close>.\<close>

definition mapping_report :: "string \<Rightarrow> (int \<times> string) list \<Rightarrow> st \<Rightarrow> st run" where
  "mapping_report dflt column_mapping s =
     for_each (sorted_items column_mapping) (mapping_row dflt) s"

text \<open>One round of the loop that counts today's matches.\<close>

definition today_row :: "int \<Rightarrow> int \<Rightarrow> st \<Rightarrow> st run" where
  "today_row current_day row s =
     raise_in s (ws_cell (sheet s) row 5) (\<lambda>(date_str, ws').
       raise_in s (today_step current_day date_str (today_count s)) (\<lambda>n.
         Inr (s\<lparr>sheet := ws', today_count := n\<rparr>)))"

text \<open>The loop \<^verbatim>\<open>for row in range(2, ws.max_row + 1)\<close> around it.\<close>

definition count_today :: "int \<Rightarrow> st \<Rightarrow> st run" where
  "count_today current_day s =
     for_each (py_range 2 (max_row (sheet s) + 1)) (today_row current_day) s"

section \<open>\<^verbatim>\<open>examine_excel.py\<close>\<close>

definition sample_field_excel :: "int \<Rightarrow> int \<Rightarrow> st \<Rightarrow> st run" where
  "sample_field_excel row col s =
     raise_in s (ws_cell (sheet s) row col) (\<lambda>(cell_value, ws').
       raise_in s (header_or (headers s) col (''Col'' @ py_str (CInt col))) (\<lambda>header.
         Inr (if cell_value \<noteq> CNone \<and> py_strip (py_str cell_value) \<noteq> []
              then print (SampleField col header cell_value) (s\<lparr>sheet := ws'\<rparr>)
              else s\<lparr>sheet := ws'\<rparr>)))"

definition sample_row_excel :: "int \<Rightarrow> st \<Rightarrow> st run" where
  "sample_row_excel row s =
     for_each (py_range 1 (min (max_column (sheet s) + 1) 30)) (sample_field_excel row)
       (print (RowTitle row) s)"

text \<open>
  The function \<^verbatim>\<open>examine_excel(file_path)\<close>; \<open>fs\<close> is the file system, \<open>current_day\<close>
  what \<^verbatim>\<open>datetime.now().day\<close> gives, and \<open>out0\<close> what the process has printed so far.
\<close>

definition examine_excel :: "(path \<Rightarrow> disk_file option) \<Rightarrow> path \<Rightarrow> int \<Rightarrow> line list \<Rightarrow> st run" where
  "examine_excel fs file_path current_day out0 =
     (case load_workbook fs file_path of
        Inl e \<Rightarrow> Inl (e, out0)
      | Inr wb \<Rightarrow>
          (let ws = active wb;
               s0 = \<lparr>sheet = ws, out = out0, headers = [], today_count = 0, null_counts = []\<rparr>;
               s1 = prints [AnalysisOf file_path, SheetName (title ws), Dimensions (dimensions ws),
                            Extents (max_row ws) (max_column ws),
                            Heading ''COLUMN HEADERS (Row 1):''] s0
           in then_run (for_each (py_range 1 (min (max_column (sheet s1) + 1) 50)) header_row s1)
             (\<lambda>s2. then_run
                (for_each (py_range 2 (min (max_row (sheet s2) + 1) 7)) sample_row_excel
                   (print (Heading ''SAMPLE DATA (Rows 2-6):'') s2))
             (\<lambda>s3. then_run
                (mapping_report ''N/A'' column_mapping_excel
                   (prints [Heading ''COLUMNS USED BY ExtractFromExcel.cs:'',
                            Heading ''Mapping from C# code (ExtractFromExcel.cs):''] s3))
             (\<lambda>s4. let total_rows = max_row (sheet s4) - 1 in then_run
                (count_today current_day
                   (prints [Heading ''DATA STATISTICS:'', TotalRows total_rows] s4))
             (\<lambda>s5. Inr (prints [TodayLine current_day (today_count s5),
                                 TotalMatches total_rows] s5)))))))"

text \<open>
  The main block: the output and the exit status of the process. \<^verbatim>\<open>sys.exit(1)\<close> in the
  \<^verbatim>\<open>else\<close> of the search loop ends the process at once.
\<close>

definition run_excel :: "(path \<Rightarrow> disk_file option) \<Rightarrow> path \<Rightarrow> int \<Rightarrow> line list \<Rightarrow> line list \<times> int" where
  "run_excel fs file_path current_day out0 =
     (case examine_excel fs file_path current_day out0 of
        Inl (e, printed) \<Rightarrow> (printed @ [ErrorExamining e], 1)
      | Inr s \<Rightarrow> (out s, 0))"

definition main_excel :: "(path \<Rightarrow> disk_file option) \<Rightarrow> int \<Rightarrow> line list \<times> int" where
  "main_excel fs current_day =
     (if fs ScriptResources \<noteq> None then run_excel fs ScriptResources current_day []
      else
        (let out0 = [NotFoundAt ScriptResources, Heading ''Looking for alternative paths...'']
         in case find (\<lambda>alt_path. fs alt_path \<noteq> None) [ScriptWebResources, CwdResources] of
              None \<Rightarrow> (out0, 1)
            | Some alt_path \<Rightarrow> run_excel fs alt_path current_day (out0 @ [FoundAt alt_path])))"

section \<open>\<^verbatim>\<open>examine_soccer.py\<close>\<close>

definition sample_field_soccer :: "int \<Rightarrow> int \<Rightarrow> st \<Rightarrow> st run" where
  "sample_field_soccer row col s =
     (if col \<le> max_column (sheet s) then
        raise_in s (ws_cell (sheet s) row col) (\<lambda>(val, ws').
          raise_in s (header_or (headers s) col (''Col'' @ py_str (CInt col))) (\<lambda>header.
            Inr (print (SampleField col header val) (s\<lparr>sheet := ws'\<rparr>))))
      else Inr s)"

definition sample_row_soccer :: "int \<Rightarrow> st \<Rightarrow> st run" where
  "sample_row_soccer row s =
     for_each [1, 2, 3, 4, 5, 6, 7, 8, 18, 22, 24, 34, 38] (sample_field_soccer row)
       (print (RowTitle row) s)"

text \<open>
  \<^verbatim>\<open>sum(1 for row in range(2, ws.max_row + 1) if ws.cell(row, col_num).value is None)\<close>,
  over the rows of the range.
\<close>

fun count_nulls :: "worksheet \<Rightarrow> int \<Rightarrow> int list \<Rightarrow> nat \<Rightarrow> py_error + (nat \<times> worksheet)" where
  "count_nulls ws col_num [] n = Inr (n, ws)"
| "count_nulls ws col_num (row # rows) n =
     (case ws_cell ws row col_num of
        Inl e \<Rightarrow> Inl e
      | Inr (v, ws') \<Rightarrow> count_nulls ws' col_num rows (if v = CNone then n + 1 else n))"

text \<open>
  The divisor of a true division, which must not be zero. The quotient itself is a
  floating-point number and is not computed here: a report line keeps the two operands.
\<close>

definition py_divisor :: "int \<Rightarrow> py_error + int" where
  "py_divisor b = (if b = 0 then Inl ZeroDivisionError else Inr b)"

text \<open>One round of the loop over the key columns (lines 85 to 89).\<close>

definition null_column :: "int \<Rightarrow> st \<Rightarrow> st run" where
  "null_column col_num s =
     raise_in s (count_nulls (sheet s) col_num (py_range 2 (max_row (sheet s) + 1)) 0)
       (\<lambda>(null_count, ws').
          raise_in s (header_or (headers s) col_num (''Col'' @ py_str (CInt col_num)))
            (\<lambda>col_name.
               raise_in s (py_divisor (max_row ws' - 1)) (\<lambda>m.
                 Inr (print (NullLine col_name null_count m)
                        (s\<lparr>sheet := ws',
                           null_counts := AList.update col_name null_count (null_counts s)\<rparr>)))))"

definition null_report :: "st \<Rightarrow> st run" where
  "null_report s = for_each [6, 7, 8, 18, 22, 34] null_column s"

text \<open>
  The script, which opens \<^verbatim>\<open>Resources/predictions.xlsx\<close> in the working directory. An
  exception here is caught by nobody and ends the process.
\<close>

definition examine_soccer :: "(path \<Rightarrow> disk_file option) \<Rightarrow> int \<Rightarrow> st run" where
  "examine_soccer fs current_day =
     (case load_workbook fs CwdResources of
        Inl e \<Rightarrow> Inl (e, [])
      | Inr wb \<Rightarrow>
     (case wb_getitem wb ''soccer'' of
        Inl e \<Rightarrow> Inl (e, [])
      | Inr ws \<Rightarrow>
          (let s0 = \<lparr>sheet = ws, out = [], headers = [], today_count = 0, null_counts = []\<rparr>;
               s1 = prints [Heading ''SOCCER WORKSHEET ANALYSIS'', Dimensions (dimensions ws),
                            Extents (max_row ws) (max_column ws),
                            Heading ''ALL COLUMN HEADERS:''] s0
           in then_run (for_each (py_range 1 (max_column (sheet s1) + 1)) header_row s1)
             (\<lambda>s2. then_run
                (mapping_report ''OUT OF RANGE'' column_mapping_soccer
                   (print (Heading ''COLUMNS USED BY C# CODE (ExtractFromExcel.cs):'') s2))
             (\<lambda>s3. then_run
                (for_each (py_range 2 (min (max_row (sheet s3) + 1) 5)) sample_row_soccer
                   (print (Heading ''SAMPLE SOCCER MATCHES (First 3 rows):'') s3))
             (\<lambda>s4. then_run (count_today current_day s4)
             (\<lambda>s5. then_run
                (null_report
                   (prints [Heading ''STATISTICS:'', TotalMatches (max_row (sheet s5) - 1),
                            TodayLine current_day (today_count s5),
                            Heading ''DATA QUALITY ANALYSIS:''] s5))
             (\<lambda>s6. Inr (print (Heading ''CONCLUSION:'') s6)))))))))"

section \<open>Notions used to state the properties\<close>

text \<open>The text of a string before its first full stop or space.\<close>

definition leading_token :: "string \<Rightarrow> string" where
  "leading_token s = takeWhile (\<lambda>c. c \<noteq> CHR ''.'' \<and> c \<noteq> CHR '' '') s"

text \<open>
  The specification's description of the heuristic, word for word: "split the string on
  \<^verbatim>\<open>.\<close> and on whitespace, take the first token, parse it as an integer day-of-month;
  compare against the caller's current local day-of-month". White space is what
  \<^verbatim>\<open>str.isspace\<close> accepts.
\<close>

definition spec_first_token :: "string \<Rightarrow> string" where
  "spec_first_token s = takeWhile (\<lambda>c. c \<noteq> CHR ''.'' \<and> \<not> str_space c) s"

definition spec_matches_today :: "int \<Rightarrow> string \<Rightarrow> bool" where
  "spec_matches_today current_day s = (py_int (spec_first_token s) = Inr current_day)"

text \<open>The date text \<^verbatim>\<open>"5\t03"\<close>: a day and a month with a tab between them.\<close>

definition tab_date :: string where
  "tab_date = [CHR ''5'', CHR 0x09, CHR ''0'', CHR ''3'']"

text \<open>The column and the field name that a line of the mapping report shows.\<close>

fun mapped_as :: "line \<Rightarrow> (int \<times> string) option" where
  "mapped_as (MappingLine col_num field_name header sample_val) = Some (col_num, field_name)"
| "mapped_as l = None"

text \<open>A report without its "Matches for today" line.\<close>

fun is_today_line :: "line \<Rightarrow> bool" where
  "is_today_line (TodayLine current_day n) = True"
| "is_today_line l = False"

definition but_today :: "line list \<Rightarrow> line list" where
  "but_today ls = filter (\<lambda>l. \<not> is_today_line l) ls"

text \<open>What a run has printed, whether it ended normally or by an exception.\<close>

definition printed :: "st run \<Rightarrow> line list" where
  "printed r = (case r of Inl (e, ls) \<Rightarrow> ls | Inr s \<Rightarrow> out s)"

text \<open>
  Two states of a run that agree on everything but the count of today's matches and the
  line that reports it, and two runs that end alike in such states.
\<close>

definition same_but_today :: "st \<Rightarrow> st \<Rightarrow> bool" where
  "same_but_today s t =
     (sheet s = sheet t \<and> headers s = headers t \<and> null_counts s = null_counts t
      \<and> but_today (out s) = but_today (out t))"

definition runs_alike :: "st run \<Rightarrow> st run \<Rightarrow> bool" where
  "runs_alike x y =
     (case x of
        Inl (e, ls) \<Rightarrow> (case y of Inl (e', ls') \<Rightarrow> e = e' \<and> but_today ls = but_today ls'
                       | Inr t \<Rightarrow> False)
      | Inr s \<Rightarrow> (case y of Inl p \<Rightarrow> False | Inr t \<Rightarrow> same_but_today s t))"

text \<open>
  \<open>rows_in m s\<close>: the sheet of the state has \<open>m\<close> rows, if \<open>m\<close> is given, and \<open>fits m row\<close>:
  the row is one of them. With \<open>None\<close> both say nothing.
\<close>

definition rows_in :: "int option \<Rightarrow> st \<Rightarrow> bool" where
  "rows_in m s = (case m of None \<Rightarrow> True | Some n \<Rightarrow> 1 \<le> n \<and> max_row (sheet s) = n)"

definition fits :: "int option \<Rightarrow> int \<Rightarrow> bool" where
  "fits m row = (case m of None \<Rightarrow> True | Some n \<Rightarrow> row \<le> n)"

text \<open>The number of rows of a list whose cell in a column is \<^verbatim>\<open>None\<close>.\<close>

definition nulls_in :: "worksheet \<Rightarrow> int \<Rightarrow> int list \<Rightarrow> nat" where
  "nulls_in ws col_num rows = length (filter (\<lambda>row. value_at ws row col_num = CNone) rows)"

subsection \<open>Sample workbooks\<close>

text \<open>A sheet with a header row and one match, on the fifth of March.\<close>

definition sample_sheet :: worksheet where
  "sample_sheet =
     \<lparr>title = ''soccer'', dimensions = ''A1:E2'', max_row = 2, max_column = 5,
      value_at = (\<lambda>row col.
        if row = 1 \<and> 1 \<le> col \<and> col \<le> 5 then CStr ''h''
        else if row = 2 \<and> col = 5 then CStr ''5.03 18:30''
        else CNone)\<rparr>"

text \<open>The same sheet with its header row only.\<close>

definition header_only_sheet :: worksheet where
  "header_only_sheet =
     \<lparr>title = ''soccer'', dimensions = ''A1:E1'', max_row = 1, max_column = 5,
      value_at = (\<lambda>row col. if row = 1 \<and> 1 \<le> col \<and> col \<le> 5 then CStr ''h'' else CNone)\<rparr>"

text \<open>The same sheet under the title \<^verbatim>\<open>Soccer\<close>, with a capital letter.\<close>

definition capital_sheet :: worksheet where
  "capital_sheet = sample_sheet\<lparr>title := ''Soccer''\<rparr>"

definition book_of :: "worksheet \<Rightarrow> workbook" where
  "book_of ws = \<lparr>worksheets = [ws], active = ws\<rparr>"

text \<open>File systems with the workbook at one of the three places, and nowhere else.\<close>

definition only_at :: "path \<Rightarrow> workbook \<Rightarrow> path \<Rightarrow> disk_file option" where
  "only_at p wb = (\<lambda>q. if q = p then Some (Xlsx wb) else None)"

definition no_files :: "path \<Rightarrow> disk_file option" where
  "no_files = (\<lambda>q. None)"

definition sample_state :: st where
  "sample_state =
     \<lparr>sheet = sample_sheet, out = [], headers = [], today_count = 0, null_counts = []\<rparr>"

section \<open>Facts about the interpreter's values\<close>

lemma py_split_hd: "\<exists>ws. py_split sep s = takeWhile (\<lambda>c. c \<noteq> sep) s # ws"
  by (induction s) (auto split: list.splits)

lemma py_get_0: "py_get (x # xs) 0 = Inr x"
  by (simp add: py_get_def)

lemma takeWhile_twice: "takeWhile P (takeWhile Q s) = takeWhile (\<lambda>c. Q c \<and> P c) s"
  by (induction s) auto

lemma first_token_eq: "first_token s = Inr (leading_token s)"
proof -
  obtain ps where p: "py_split CHR ''.'' s = takeWhile (\<lambda>c. c \<noteq> CHR ''.'') s # ps"
    using py_split_hd by blast
  obtain qs where q: "py_split CHR '' '' (takeWhile (\<lambda>c. c \<noteq> CHR ''.'') s)
      = takeWhile (\<lambda>c. c \<noteq> CHR '' '') (takeWhile (\<lambda>c. c \<noteq> CHR ''.'') s) # qs"
    using py_split_hd by blast
  show ?thesis
    by (simp add: first_token_def p q py_get_0 takeWhile_twice leading_token_def)
qed

lemma parse_day_eq: "parse_day s = py_int (leading_token s)"
  by (simp add: parse_day_def first_token_eq)



lemma today_step_eq:
  "today_step d v n = Inr (if truthy v \<and> parse_day (py_str v) = Inr d then n + 1 else n)"
  by (auto simp: today_step_def split: sum.splits)

lemma matches_today_eq: "matches_today d v = (truthy v \<and> parse_day (py_str v) = Inr d)"
  by (simp add: matches_today_def today_step_eq)

lemmas parse_defs = parse_day_def first_token_def py_get_def py_int_def int_strip_def
  int_space_def py_int_unsigned_def is_digit_def digit_val_def digits_value_def
  int_max_str_digits_def

lemma header_or_eq:
  "1 \<le> col \<Longrightarrow> header_or hs col dflt
     = Inr (if col - 1 < int (length hs) then Val (hs ! nat (col - 1)) else Txt dflt)"
  by (simp add: header_or_def py_get_def)

lemma ws_cell_eq:
  "1 \<le> row \<Longrightarrow> 1 \<le> col \<Longrightarrow> ws_cell ws row col = Inr (value_at ws row col, touch ws row col)"
  by (simp add: ws_cell_def)

lemma touch_simps [simp]:
  "value_at (touch ws row col) = value_at ws"
  "max_row (touch ws row col) = max (max_row ws) row"
  "max_column (touch ws row col) = max (max_column ws) col"
  by (simp_all add: touch_def)

lemma py_range_mem: "x \<in> set (py_range a b) \<Longrightarrow> a \<le> x \<and> x < b"
  by (simp add: py_range_def)

lemma sorted_items_excel: "sorted_items column_mapping_excel = column_mapping_excel"
  by (simp add: sorted_items_def column_mapping_excel_def)

lemma sorted_items_soccer: "sorted_items column_mapping_soccer = column_mapping_soccer"
  by (simp add: sorted_items_def column_mapping_soccer_def)

lemma keys_excel: "x \<in> set column_mapping_excel \<Longrightarrow> 1 \<le> fst x"
  by (auto simp: column_mapping_excel_def)

lemma keys_soccer: "x \<in> set column_mapping_soccer \<Longrightarrow> 1 \<le> fst x"
  by (auto simp: column_mapping_soccer_def)

section \<open>Facts about runs\<close>

lemma print_simps [simp]:
  "sheet (print l s) = sheet s"
  "headers (print l s) = headers s"
  "out (print l s) = out s @ [l]"
  "today_count (print l s) = today_count s"
  "null_counts (print l s) = null_counts s"
  by (simp_all add: print_def)

lemma prints_simps [simp]:
  "sheet (prints ls s) = sheet s"
  "headers (prints ls s) = headers s"
  "out (prints ls s) = out s @ ls"
  "today_count (prints ls s) = today_count s"
  "null_counts (prints ls s) = null_counts s"
  by (simp_all add: prints_def)

lemma for_each_inv:
  assumes "\<And>x s. x \<in> set xs \<Longrightarrow> I s \<Longrightarrow> \<exists>s'. body x s = Inr s' \<and> I s'"
    and "I s"
  shows "\<exists>s'. for_each xs body s = Inr s' \<and> I s'"
  using assms
proof (induction xs arbitrary: s)
  case Nil
  then show ?case by simp
next
  case (Cons x xs)
  from Cons.prems obtain s1 where s1: "body x s = Inr s1" "I s1"
    by (meson list.set_intros(1))
  have "\<exists>s'. for_each xs body s1 = Inr s' \<and> I s'"
    using Cons.IH[of s1] Cons.prems(1) s1(2) by (meson list.set_intros(2))
  then show ?case by (simp add: s1(1))
qed

lemma then_run_inv:
  assumes "\<exists>x. m = Inr x \<and> I x"
    and "\<And>x. I x \<Longrightarrow> \<exists>y. k x = Inr y \<and> J y"
  shows "\<exists>y. then_run m k = Inr y \<and> J y"
  using assms by (auto simp: then_run_def)

lemma then_run_fails:
  assumes "\<exists>x. m = Inr x \<and> I x"
    and "\<And>x. I x \<Longrightarrow> \<exists>p. k x = Inl (e, p)"
  shows "\<exists>p. then_run m k = Inl (e, p)"
  using assms by (auto simp: then_run_def)

subsection \<open>The steps never raise, and keep the number of rows\<close>

lemma rows_in_print [simp]: "rows_in m (print l s) = rows_in m s"
  and rows_in_prints [simp]: "rows_in m (prints ls s) = rows_in m s"
  by (simp_all add: rows_in_def split: option.splits)

lemma rows_in_fits: "rows_in m s \<Longrightarrow> row \<le> max_row (sheet s) \<Longrightarrow> fits m row"
  by (auto simp: rows_in_def fits_def split: option.splits)

lemma rows_in_touch:
  "rows_in m s \<Longrightarrow> fits m row \<Longrightarrow> 1 \<le> row \<Longrightarrow> max_row (sheet s') = max_row (touch (sheet s) row col)
   \<Longrightarrow> rows_in m s'"
  by (auto simp: rows_in_def fits_def split: option.splits)

lemma header_row_inv:
  assumes "1 \<le> col" "rows_in m s"
  shows "\<exists>s'. header_row col s = Inr s' \<and> rows_in m s'"
proof -
  have "fits m 1" using assms(2) by (auto simp: rows_in_def fits_def split: option.splits)
  then show ?thesis using assms
    by (auto simp: header_row_def raise_in_def ws_cell_eq intro: rows_in_touch[of m s 1])
qed

lemma header_rows_inv:
  assumes "rows_in m s"
  shows "\<exists>s'. for_each (py_range 1 b) header_row s = Inr s' \<and> rows_in m s'"
proof (rule for_each_inv[where I = "rows_in m"])
  fix x t assume "x \<in> set (py_range 1 b)" "rows_in m t"
  then show "\<exists>s'. header_row x t = Inr s' \<and> rows_in m s'"
    using header_row_inv[of x m t] py_range_mem[of x 1 b] by simp
qed (rule assms)

lemma mapping_row_eq:
  "1 \<le> k \<Longrightarrow> mapping_row dflt (k, f) s =
     Inr (if 2 \<le> max_row (sheet s)
          then print (MappingLine k f
                 (if k - 1 < int (length (headers s)) then Val (headers s ! nat (k - 1)) else Txt dflt)
                 (Val (value_at (sheet s) 2 k))) (s\<lparr>sheet := touch (sheet s) 2 k\<rparr>)
          else print (MappingLine k f
                 (if k - 1 < int (length (headers s)) then Val (headers s ! nat (k - 1)) else Txt dflt)
                 (Txt ''N/A'')) s)"
  by (simp add: mapping_row_def raise_in_def header_or_eq ws_cell_eq)

lemma mapping_row_inv:
  assumes "1 \<le> fst item" "rows_in m s"
  shows "\<exists>s'. mapping_row dflt item s = Inr s' \<and> rows_in m s'"
proof -
  obtain k f where item: "item = (k, f)" by (cases item)
  with assms(1) have k: "1 \<le> k" by simp
  show ?thesis using assms(2) unfolding item mapping_row_eq[OF k]
    by (auto simp: rows_in_def split: option.splits)
qed

lemma mapping_report_inv:
  assumes "\<And>x. x \<in> set (sorted_items cm) \<Longrightarrow> 1 \<le> fst x" "rows_in m s"
  shows "\<exists>s'. mapping_report dflt cm s = Inr s' \<and> rows_in m s'"
  unfolding mapping_report_def
proof (rule for_each_inv[where I = "rows_in m"])
  fix x t assume "x \<in> set (sorted_items cm)" "rows_in m t"
  then show "\<exists>s'. mapping_row dflt x t = Inr s' \<and> rows_in m s'"
    using mapping_row_inv assms(1) by blast
qed (rule assms(2))

lemma today_row_eq:
  "1 \<le> row \<Longrightarrow> today_row d row s =
     Inr (s\<lparr>sheet := touch (sheet s) row 5,
            today_count := (if truthy (value_at (sheet s) row 5)
                               \<and> parse_day (py_str (value_at (sheet s) row 5)) = Inr d
                            then today_count s + 1 else today_count s)\<rparr>)"
  by (simp add: today_row_def raise_in_def ws_cell_eq today_step_eq)

lemma today_row_inv:
  "1 \<le> row \<Longrightarrow> fits m row \<Longrightarrow> rows_in m s \<Longrightarrow> \<exists>s'. today_row d row s = Inr s' \<and> rows_in m s'"
  by (auto simp: today_row_eq intro: rows_in_touch[of m s row])

lemma count_today_inv:
  assumes "rows_in m s"
  shows "\<exists>s'. count_today d s = Inr s' \<and> rows_in m s'"
  unfolding count_today_def
proof (rule for_each_inv[where I = "rows_in m"])
  fix x t assume x: "x \<in> set (py_range 2 (max_row (sheet s) + 1))" and "rows_in m t"
  then show "\<exists>s'. today_row d x t = Inr s' \<and> rows_in m s'"
    using today_row_inv[of x m t d] py_range_mem[OF x] rows_in_fits[OF assms, of x] by simp
qed (rule assms)

lemma sample_field_excel_inv:
  assumes "1 \<le> row" "fits m row" "1 \<le> col" "rows_in m s"
  shows "\<exists>s'. sample_field_excel row col s = Inr s' \<and> rows_in m s'"
  using assms
  by (auto simp: sample_field_excel_def raise_in_def header_or_eq ws_cell_eq
      intro: rows_in_touch[of m s row])

lemma sample_row_excel_inv:
  assumes "1 \<le> row" "fits m row" "rows_in m s"
  shows "\<exists>s'. sample_row_excel row s = Inr s' \<and> rows_in m s'"
  unfolding sample_row_excel_def
proof (rule for_each_inv[where I = "rows_in m"])
  fix x t assume "x \<in> set (py_range 1 (min (max_column (sheet s) + 1) 30))" "rows_in m t"
  then show "\<exists>s'. sample_field_excel row x t = Inr s' \<and> rows_in m s'"
    using sample_field_excel_inv[of row m x t] assms(1,2) py_range_mem by fastforce
qed (simp add: assms(3))

lemma sample_rows_excel_inv:
  assumes "rows_in m s"
  shows "\<exists>s'. for_each (py_range 2 (min (max_row (sheet s) + 1) 7)) sample_row_excel s = Inr s'
           \<and> rows_in m s'"
proof (rule for_each_inv[where I = "rows_in m"])
  fix x t assume x: "x \<in> set (py_range 2 (min (max_row (sheet s) + 1) 7))" and "rows_in m t"
  then show "\<exists>s'. sample_row_excel x t = Inr s' \<and> rows_in m s'"
    using sample_row_excel_inv[of x m t] py_range_mem[OF x] rows_in_fits[OF assms, of x] by simp
qed (rule assms)

lemma sample_field_soccer_inv:
  assumes "1 \<le> row" "fits m row" "1 \<le> col" "rows_in m s"
  shows "\<exists>s'. sample_field_soccer row col s = Inr s' \<and> rows_in m s'"
  using assms
  by (auto simp: sample_field_soccer_def raise_in_def header_or_eq ws_cell_eq
      intro: rows_in_touch[of m s row])

lemma sample_row_soccer_inv:
  assumes "1 \<le> row" "fits m row" "rows_in m s"
  shows "\<exists>s'. sample_row_soccer row s = Inr s' \<and> rows_in m s'"
  unfolding sample_row_soccer_def
proof (rule for_each_inv[where I = "rows_in m"])
  fix x t assume "x \<in> set [1, 2, 3, 4, 5, 6, 7, 8, 18, 22, 24, 34, 38 :: int]" "rows_in m t"
  then show "\<exists>s'. sample_field_soccer row x t = Inr s' \<and> rows_in m s'"
    using sample_field_soccer_inv[of row m x t] assms(1,2) by fastforce
qed (simp add: assms(3))

lemma sample_rows_soccer_inv:
  assumes "rows_in m s"
  shows "\<exists>s'. for_each (py_range 2 (min (max_row (sheet s) + 1) 5)) sample_row_soccer s = Inr s'
           \<and> rows_in m s'"
proof (rule for_each_inv[where I = "rows_in m"])
  fix x t assume x: "x \<in> set (py_range 2 (min (max_row (sheet s) + 1) 5))" and "rows_in m t"
  then show "\<exists>s'. sample_row_soccer x t = Inr s' \<and> rows_in m s'"
    using sample_row_soccer_inv[of x m t] py_range_mem[OF x] rows_in_fits[OF assms, of x] by simp
qed (rule assms)

lemma examine_excel_total:
  assumes "fs p = Some (Xlsx wb)"
  shows "\<exists>s. examine_excel fs p d out0 = Inr s \<and> rows_in None s"
  unfolding examine_excel_def load_workbook_def Let_def using assms
  apply simp
  apply (rule then_run_inv[where I = "rows_in None"])
   apply (rule header_rows_inv)
   apply (simp add: rows_in_def)
  apply (rule then_run_inv[where I = "rows_in None"])
   apply (rule sample_rows_excel_inv[of None "print l s" for l s, simplified])
   apply simp
  apply (rule then_run_inv[where I = "rows_in None"])
   apply (rule mapping_report_inv)
    apply (simp add: sorted_items_excel keys_excel)
   apply simp
  apply (rule then_run_inv[where I = "rows_in None"])
   apply (rule count_today_inv)
   apply simp
  apply (simp add: rows_in_def)
  done

section \<open>The "matches today" heuristic\<close>

text \<open>
  C1, as the specification words it, fails: the specification's first token ends at any
  white space, the script's only at a full stop or a space. On the date text \<^verbatim>\<open>"5\t03"\<close>
  with the current day 5 the specification's description counts the record, and the script
  does not, since \<^verbatim>\<open>int("5\t03")\<close> raises and the exception is swallowed.
\<close>

theorem today_token_counterexample:
  "spec_matches_today 5 tab_date \<and> \<not> matches_today 5 (CStr tab_date)"
  by (simp add: matches_today_def today_step_def parse_defs spec_matches_today_def
      spec_first_token_def str_space_def tab_date_def)

text \<open>
  C1, amended: for every cell value, the record is counted if and only if the value is
  true (not \<^verbatim>\<open>None\<close>, not empty) and the text of the value before its first full stop or
  space character, read by \<^verbatim>\<open>int\<close>, is the current day of the month; no exception leaves
  the step. \<^verbatim>\<open>"5.03"\<close> on day 5 is counted, \<^verbatim>\<open>"15.03"\<close> on day 5 is not, and \<^verbatim>\<open>""\<close> and
  \<^verbatim>\<open>"abc"\<close> are not counted and raise nothing.
\<close>

theorem today_token:
  "(matches_today d v \<longleftrightarrow> truthy v \<and> py_int (leading_token (py_str v)) = Inr d)
   \<and> (\<exists>n. today_step d v 0 = Inr n)
   \<and> matches_today 5 (CStr ''5.03'')
   \<and> \<not> matches_today 5 (CStr ''15.03'')
   \<and> \<not> matches_today 5 (CStr '''') \<and> today_step 5 (CStr '''') 0 = Inr 0
   \<and> \<not> matches_today 5 (CStr ''abc'') \<and> today_step 5 (CStr ''abc'') 0 = Inr 0"
proof -
  have general: "matches_today d v \<longleftrightarrow> truthy v \<and> py_int (leading_token (py_str v)) = Inr d"
    by (simp add: matches_today_eq parse_day_eq)
  have total: "\<exists>n. today_step d v 0 = Inr n"
    by (simp add: today_step_eq)
  have fifth: "matches_today 5 (CStr ''5.03'')"
    by (simp add: matches_today_def today_step_def parse_defs)
  have fifteenth: "\<not> matches_today 5 (CStr ''15.03'')"
    by (simp add: matches_today_def today_step_def parse_defs)
  have empty: "\<not> matches_today 5 (CStr '''') \<and> today_step 5 (CStr '''') 0 = Inr 0"
    by (simp add: matches_today_def today_step_def)
  have letters: "\<not> matches_today 5 (CStr ''abc'') \<and> today_step 5 (CStr ''abc'') 0 = Inr 0"
    by (simp add: matches_today_def today_step_def parse_defs)
  from general total fifth fifteenth empty letters show ?thesis by blast
qed

text \<open>
  C4: the step for one cell never raises: it returns the count, one higher exactly when
  the cell is true and its day parses to the current day. So a cell that is \<^verbatim>\<open>None\<close> or
  empty, or whose leading token \<^verbatim>\<open>int\<close> rejects, leaves the count as it was. The loop over
  the data rows of a sheet ends normally as well, whatever the cells hold.
\<close>

theorem today_count_total:
  "today_step d v n = Inr (if truthy v \<and> parse_day (py_str v) = Inr d then n + 1 else n)
   \<and> (\<exists>s'. count_today d s = Inr s')"
proof
  show "today_step d v n = Inr (if truthy v \<and> parse_day (py_str v) = Inr d then n + 1 else n)"
    by (rule today_step_eq)
  have "rows_in None s" by (simp add: rows_in_def)
  then show "\<exists>s'. count_today d s = Inr s'"
    using count_today_inv[of None s d] by blast
qed



section \<open>The column mapping\<close>

text \<open>
  C2: in both scripts that report the mapping, columns 2, 3, 4, 5 are the home team, the
  away team, the league and the date and time; 6, 7, 8 the home win, the draw and the away
  win; 18, 22, 24 over 2.5, 3 and 4 goals; 34, 38 under 2.5 and 3 goals. The two tables
  have the same columns, and \<^verbatim>\<open>examine_soccer.py\<close> adds the threshold to each name.
\<close>

theorem column_mapping_fields:
  "map (map_of column_mapping_excel) [2, 3, 4, 5, 6, 7, 8, 18, 22, 24, 34, 38]
     = map Some [''HomeTeam'', ''AwayTeam'', ''League'', ''Date/Time'',
                 ''HomeWin'', ''Draw'', ''AwayWin'',
                 ''OverTwoGoals'', ''OverThreeGoals'', ''OverFourGoals'',
                 ''UnderTwoGoals'', ''UnderThreeGoals'']
   \<and> map (map_of column_mapping_soccer) [2, 3, 4, 5, 6, 7, 8, 18, 22, 24, 34, 38]
     = map Some [''HomeTeam'', ''AwayTeam'', ''League'', ''Date/Time'',
                 ''HomeWin (1x2_h)'', ''Draw (1x2_d)'', ''AwayWin (1x2_a)'',
                 ''OverTwoGoals (o_2.5)'', ''OverThreeGoals (o_3)'', ''OverFourGoals (o_4)'',
                 ''UnderTwoGoals (u_2.5)'', ''UnderThreeGoals (u_3)'']
   \<and> map fst column_mapping_excel = [2, 3, 4, 5, 6, 7, 8, 18, 22, 24, 34, 38]
   \<and> map fst column_mapping_soccer = map fst column_mapping_excel"
  by (simp add: column_mapping_excel_def column_mapping_soccer_def)

section \<open>The mapping report\<close>

lemma mapping_rows_lines:
  "\<forall>x \<in> set items. 1 \<le> fst x \<Longrightarrow>
   \<exists>s' ls. for_each items (mapping_row dflt) s = Inr s' \<and> out s' = out s @ ls
            \<and> map mapped_as ls = map Some items"
proof (induction items arbitrary: s)
  case Nil
  then show ?case by simp
next
  case (Cons item items)
  obtain k f where item: "item = (k, f)" by (cases item)
  with Cons.prems have k: "1 \<le> k" by simp
  obtain s1 l where s1: "mapping_row dflt (k, f) s = Inr s1" "out s1 = out s @ [l]"
    "mapped_as l = Some (k, f)"
    by (cases "2 \<le> max_row (sheet s)") (simp_all add: mapping_row_eq[OF k])
  from Cons.IH[of s1] Cons.prems obtain s' ls where
    rest: "for_each items (mapping_row dflt) s1 = Inr s'" "out s' = out s1 @ ls"
    "map mapped_as ls = map Some items"
    by auto
  have "for_each (item # items) (mapping_row dflt) s = Inr s'"
    by (simp add: item s1(1) rest(1))
  moreover have "out s' = out s @ (l # ls)"
    by (simp add: rest(2) s1(2))
  moreover have "map mapped_as (l # ls) = map Some (item # items)"
    by (simp add: item s1(3) rest(3))
  ultimately show ?case by blast
qed

lemma distinct_keys_excel: "distinct (map fst column_mapping_excel)"
  by (simp add: column_mapping_excel_def)

text \<open>
  C3: the mapping report of \<^verbatim>\<open>examine_excel.py\<close> never raises, and prints one line for
  each entry of the table, in the order of the columns. A column index is reported with a
  field name exactly when the table maps it to that name; an index outside the table has
  no entry (it is unmapped) and no line.
\<close>

theorem column_lookup:
  "\<exists>s' ls. mapping_report ''N/A'' column_mapping_excel s = Inr s' \<and> out s' = out s @ ls
     \<and> map mapped_as ls = map Some column_mapping_excel
     \<and> (\<forall>f. (Some (k, f) \<in> set (map mapped_as ls)) = (map_of column_mapping_excel k = Some f))
     \<and> (map_of column_mapping_excel k = None)
         = (k \<notin> {2, 3, 4, 5, 6, 7, 8, 18, 22, 24, 34, 38})"
proof -
  have keys: "\<forall>x \<in> set column_mapping_excel. 1 \<le> fst x"
    using keys_excel by blast
  obtain s' ls where run: "for_each column_mapping_excel (mapping_row ''N/A'') s = Inr s'"
    "out s' = out s @ ls" "map mapped_as ls = map Some column_mapping_excel"
    using mapping_rows_lines[OF keys, of "''N/A''" s] by blast
  have reported: "(Some (k, f) \<in> set (map mapped_as ls)) = (map_of column_mapping_excel k = Some f)"
    for f
    using distinct_keys_excel by (auto simp: run(3))
  have unmapped: "(map_of column_mapping_excel k = None)
      = (k \<notin> {2, 3, 4, 5, 6, 7, 8, 18, 22, 24, 34, 38})"
    by (simp add: column_mapping_excel_def)
  have report: "mapping_report ''N/A'' column_mapping_excel s = Inr s'"
    by (simp add: mapping_report_def sorted_items_excel run(1))
  have every: "\<forall>f. (Some (k, f) \<in> set (map mapped_as ls))
      = (map_of column_mapping_excel k = Some f)"
    using reported by blast
  show ?thesis
    by (intro exI[of _ s'] exI[of _ ls] conjI report run(2) run(3) every unmapped)
qed

section \<open>\<^verbatim>\<open>examine_excel.py\<close>: the exit status\<close>

lemma run_excel_ok: "fs p = Some (Xlsx wb) \<Longrightarrow> snd (run_excel fs p d out0) = 0"
  using examine_excel_total[of fs p wb d out0] by (auto simp: run_excel_def)

text \<open>
  C6: with no file at the primary place nor at either of the two other places, the process
  prints the two lines of its diagnostic and exits with status 1; nothing of the workbook
  is reported. With a workbook that loads at the first place that has a file, the process
  exits with status 0.
\<close>

theorem missing_file_exit:
  "(fs ScriptResources = None \<and> fs ScriptWebResources = None \<and> fs CwdResources = None
      \<longrightarrow> main_excel fs d
            = ([NotFoundAt ScriptResources, Heading ''Looking for alternative paths...''], 1))
   \<and> (fs ScriptResources = Some (Xlsx wb) \<longrightarrow> snd (main_excel fs d) = 0)
   \<and> (fs ScriptResources = None \<and> fs ScriptWebResources = Some (Xlsx wb)
      \<longrightarrow> snd (main_excel fs d) = 0)
   \<and> (fs ScriptResources = None \<and> fs ScriptWebResources = None
        \<and> fs CwdResources = Some (Xlsx wb)
      \<longrightarrow> snd (main_excel fs d) = 0)"
  by (simp add: main_excel_def run_excel_ok)

theorem missing_file_exit_witness:
  "main_excel no_files 5
     = ([NotFoundAt ScriptResources, Heading ''Looking for alternative paths...''], 1)
   \<and> snd (main_excel (only_at ScriptResources (book_of sample_sheet)) 5) = 0
   \<and> snd (main_excel (only_at ScriptWebResources (book_of sample_sheet)) 5) = 0
   \<and> snd (main_excel (only_at CwdResources (book_of sample_sheet)) 5) = 0"
  using missing_file_exit[where fs = no_files and d = 5]
    missing_file_exit[where fs = "only_at ScriptResources (book_of sample_sheet)"
      and wb = "book_of sample_sheet" and d = 5]
    missing_file_exit[where fs = "only_at ScriptWebResources (book_of sample_sheet)"
      and wb = "book_of sample_sheet" and d = 5]
    missing_file_exit[where fs = "only_at CwdResources (book_of sample_sheet)"
      and wb = "book_of sample_sheet" and d = 5]
  by (simp add: no_files_def only_at_def)

section \<open>\<^verbatim>\<open>examine_soccer.py\<close>\<close>

text \<open>
  C9: when the workbook loads and none of its worksheets is titled \<^verbatim>\<open>soccer\<close>, the script
  ends by \<^verbatim>\<open>KeyError\<close> with nothing printed, and the exit status is 1.
\<close>

theorem soccer_sheet_required:
  assumes "fs CwdResources = Some (Xlsx wb)"
    and "\<forall>sh \<in> set (worksheets wb). title sh \<noteq> ''soccer''"
  shows "examine_soccer fs d = Inl (KeyError, []) \<and> exit_code (examine_soccer fs d) = 1"
proof -
  have "find (\<lambda>sh. title sh = ''soccer'') (worksheets wb) = None"
    using assms(2) by (simp add: find_None_iff)
  then have "examine_soccer fs d = Inl (KeyError, [])"
    using assms(1) by (simp add: examine_soccer_def load_workbook_def wb_getitem_def)
  then show ?thesis by (simp add: exit_code_def)
qed

theorem soccer_sheet_required_witness:
  "examine_soccer (only_at CwdResources (book_of capital_sheet)) 5 = Inl (KeyError, [])
   \<and> exit_code (examine_soccer (only_at CwdResources (book_of capital_sheet)) 5) = 1"
proof -
  have loads: "only_at CwdResources (book_of capital_sheet) CwdResources
      = Some (Xlsx (book_of capital_sheet))"
    by (simp add: only_at_def)
  have titles: "\<forall>sh \<in> set (worksheets (book_of capital_sheet)). title sh \<noteq> ''soccer''"
    by (simp add: book_of_def capital_sheet_def sample_sheet_def)
  show ?thesis
    by (rule soccer_sheet_required[where fs = "only_at CwdResources (book_of capital_sheet)"
          and wb = "book_of capital_sheet", OF loads titles])
qed

section \<open>The null counts of \<^verbatim>\<open>examine_soccer.py\<close>\<close>

lemma nulls_in_touch [simp]: "nulls_in (touch ws row col) c rows = nulls_in ws c rows"
  by (simp add: nulls_in_def)

lemma count_nulls_eq:
  "1 \<le> c \<Longrightarrow> \<forall>r \<in> set rows. 1 \<le> r \<and> r \<le> max_row ws \<Longrightarrow>
   \<exists>ws'. count_nulls ws c rows n = Inr (n + nulls_in ws c rows, ws')
         \<and> max_row ws' = max_row ws \<and> value_at ws' = value_at ws"
proof (induction rows arbitrary: ws n)
  case Nil
  then show ?case by (simp add: nulls_in_def)
next
  case (Cons r rows)
  from Cons.prems have r: "1 \<le> r" "r \<le> max_row ws" by simp_all
  let ?ws = "touch ws r c"
  let ?n = "if value_at ws r c = CNone then n + 1 else n"
  have step: "count_nulls ws c (r # rows) n = count_nulls ?ws c rows ?n"
    by (simp add: ws_cell_eq[OF r(1) Cons.prems(1)])
  have "\<forall>r' \<in> set rows. 1 \<le> r' \<and> r' \<le> max_row ?ws"
    using Cons.prems(2) by simp
  from Cons.IH[OF Cons.prems(1) this, of ?n] obtain ws' where
    rest: "count_nulls ?ws c rows ?n = Inr (?n + nulls_in ?ws c rows, ws')"
    "max_row ws' = max_row ?ws" "value_at ws' = value_at ?ws"
    by blast
  have "?n + nulls_in ?ws c rows = n + nulls_in ws c (r # rows)"
    by (simp add: nulls_in_def)
  with step rest r(2) show ?case by simp
qed

lemma null_column_ok:
  assumes "1 \<le> c" "2 \<le> max_row (sheet s)"
  shows "\<exists>name s'. null_column c s = Inr s'
           \<and> max_row (sheet s') = max_row (sheet s)
           \<and> out s' = out s @ [NullLine name
                 (nulls_in (sheet s) c (py_range 2 (max_row (sheet s) + 1)))
                 (max_row (sheet s) - 1)]"
proof -
  have "\<forall>r \<in> set (py_range 2 (max_row (sheet s) + 1)). 1 \<le> r \<and> r \<le> max_row (sheet s)"
    by (auto simp: py_range_def)
  from count_nulls_eq[OF assms(1) this, of 0] obtain ws' where
    ws': "count_nulls (sheet s) c (py_range 2 (max_row (sheet s) + 1)) 0
            = Inr (nulls_in (sheet s) c (py_range 2 (max_row (sheet s) + 1)), ws')"
    "max_row ws' = max_row (sheet s)"
    by auto
  show ?thesis
    using assms(2)
    by (simp add: null_column_def raise_in_def ws' header_or_eq[OF assms(1)] py_divisor_def)
qed

lemma null_column_zero:
  assumes "1 \<le> c" "max_row (sheet s) = 1"
  shows "null_column c s = Inl (ZeroDivisionError, out s)"
  by (simp add: null_column_def raise_in_def assms(2) py_range_def
      header_or_eq[OF assms(1)] py_divisor_def)

lemma null_column_inv:
  assumes "1 \<le> c" "2 \<le> n" "rows_in (Some n) s"
  shows "\<exists>s'. null_column c s = Inr s' \<and> rows_in (Some n) s'"
proof -
  have n: "max_row (sheet s) = n" using assms(3) by (simp add: rows_in_def)
  from null_column_ok[OF assms(1), of s] assms(2) n obtain s' where
    "null_column c s = Inr s'" "max_row (sheet s') = max_row (sheet s)"
    by auto
  then show ?thesis using assms(2) n by (auto simp: rows_in_def)
qed

lemma null_report_inv:
  assumes "2 \<le> n" "rows_in (Some n) s"
  shows "\<exists>s'. null_report s = Inr s' \<and> rows_in (Some n) s'"
  unfolding null_report_def
proof (rule for_each_inv[where I = "rows_in (Some n)"])
  fix x t assume "x \<in> set [6, 7, 8, 18, 22, 34 :: int]" "rows_in (Some n) t"
  then show "\<exists>s'. null_column x t = Inr s' \<and> rows_in (Some n) s'"
    using null_column_inv[of x n t] assms(1) by fastforce
qed (rule assms(2))

lemma null_report_zero:
  assumes "rows_in (Some 1) s"
  shows "\<exists>p. null_report s = Inl (ZeroDivisionError, p)"
proof -
  have "max_row (sheet s) = 1" using assms by (simp add: rows_in_def)
  then show ?thesis by (simp add: null_report_def null_column_zero)
qed

lemma null_stage_zero:
  assumes "rows_in (Some 1) s"
  shows "\<exists>p. then_run (null_report (prints ls s)) k = Inl (ZeroDivisionError, p)"
proof -
  have "rows_in (Some 1) (prints ls s)" using assms by simp
  from null_report_zero[OF this] show ?thesis by (auto simp: then_run_def)
qed

lemma examine_soccer_ok:
  assumes "fs CwdResources = Some (Xlsx wb)" "wb_getitem wb ''soccer'' = Inr ws"
    and "2 \<le> max_row ws"
  shows "\<exists>s. examine_soccer fs d = Inr s \<and> rows_in (Some (max_row ws)) s"
  unfolding examine_soccer_def load_workbook_def Let_def using assms
  apply simp
  apply (rule then_run_inv[where I = "rows_in (Some (max_row ws))"])
   apply (rule header_rows_inv)
   apply (simp add: rows_in_def)
  apply (rule then_run_inv[where I = "rows_in (Some (max_row ws))"])
   apply (rule mapping_report_inv)
    apply (simp add: sorted_items_soccer keys_soccer)
   apply simp
  apply (rule then_run_inv[where I = "rows_in (Some (max_row ws))"])
   apply (rule sample_rows_soccer_inv[of "Some (max_row ws)" "print l s" for l s, simplified])
   apply simp
  apply (rule then_run_inv[where I = "rows_in (Some (max_row ws))"])
   apply (rule count_today_inv)
   apply simp
  apply (rule then_run_inv[where I = "rows_in (Some (max_row ws))"])
   apply (rule null_report_inv)
    apply simp
   apply simp
  apply simp
  done

lemma examine_soccer_zero:
  assumes "fs CwdResources = Some (Xlsx wb)" "wb_getitem wb ''soccer'' = Inr ws"
    and "max_row ws = 1"
  shows "\<exists>p. examine_soccer fs d = Inl (ZeroDivisionError, p)"
  unfolding examine_soccer_def load_workbook_def Let_def using assms
  apply simp
  apply (rule then_run_fails[where I = "rows_in (Some 1)"])
   apply (rule header_rows_inv)
   apply (simp add: rows_in_def)
  apply (rule then_run_fails[where I = "rows_in (Some 1)"])
   apply (rule mapping_report_inv)
    apply (simp add: sorted_items_soccer keys_soccer)
   apply simp
  apply (rule then_run_fails[where I = "rows_in (Some 1)"])
   apply (rule sample_rows_soccer_inv[of "Some 1" "print l s" for l s, simplified])
   apply simp
  apply (rule then_run_fails[where I = "rows_in (Some 1)"])
   apply (rule count_today_inv)
   apply simp
  apply (erule null_stage_zero)
  done

text \<open>
  C10: a round of the null-count loop divides the number of \<^verbatim>\<open>None\<close> cells of the column
  in rows 2 to \<^verbatim>\<open>max_row\<close> by \<^verbatim>\<open>max_row - 1\<close>. With at least one data row the division
  is defined, the round ends normally and so does the script; with the header row only
  the round raises \<^verbatim>\<open>ZeroDivisionError\<close>, which ends the script with exit status 1.
\<close>

theorem null_percentage_division:
  "(1 \<le> c \<and> 2 \<le> max_row (sheet s) \<longrightarrow>
      (\<exists>name s'. null_column c s = Inr s'
         \<and> out s' = out s @ [NullLine name
               (nulls_in (sheet s) c (py_range 2 (max_row (sheet s) + 1)))
               (max_row (sheet s) - 1)]))
   \<and> (1 \<le> c \<and> max_row (sheet s) = 1 \<longrightarrow> null_column c s = Inl (ZeroDivisionError, out s))
   \<and> (fs CwdResources = Some (Xlsx wb) \<and> wb_getitem wb ''soccer'' = Inr ws \<and> 2 \<le> max_row ws
        \<longrightarrow> exit_code (examine_soccer fs d) = 0)
   \<and> (fs CwdResources = Some (Xlsx wb) \<and> wb_getitem wb ''soccer'' = Inr ws \<and> max_row ws = 1
        \<longrightarrow> (\<exists>p. examine_soccer fs d = Inl (ZeroDivisionError, p))
            \<and> exit_code (examine_soccer fs d) = 1)"
proof (intro conjI impI)
  assume "1 \<le> c \<and> 2 \<le> max_row (sheet s)"
  then show "\<exists>name s'. null_column c s = Inr s'
         \<and> out s' = out s @ [NullLine name
               (nulls_in (sheet s) c (py_range 2 (max_row (sheet s) + 1)))
               (max_row (sheet s) - 1)]"
    using null_column_ok[of c s] by blast
next
  assume "1 \<le> c \<and> max_row (sheet s) = 1"
  then show "null_column c s = Inl (ZeroDivisionError, out s)"
    using null_column_zero by blast
next
  assume "fs CwdResources = Some (Xlsx wb) \<and> wb_getitem wb ''soccer'' = Inr ws \<and> 2 \<le> max_row ws"
  then show "exit_code (examine_soccer fs d) = 0"
    using examine_soccer_ok[of fs wb ws d] by (auto simp: exit_code_def)
next
  assume a: "fs CwdResources = Some (Xlsx wb) \<and> wb_getitem wb ''soccer'' = Inr ws \<and> max_row ws = 1"
  then show "\<exists>p. examine_soccer fs d = Inl (ZeroDivisionError, p)"
    using examine_soccer_zero[of fs wb ws d] by blast
  then show "exit_code (examine_soccer fs d) = 1"
    by (auto simp: exit_code_def)
qed

theorem null_percentage_division_witness:
  "(\<exists>name s'. null_column 6 sample_state = Inr s' \<and> out s' = [NullLine name 1 1])
   \<and> null_column 6 (sample_state\<lparr>sheet := header_only_sheet\<rparr>) = Inl (ZeroDivisionError, [])
   \<and> exit_code (examine_soccer (only_at CwdResources (book_of sample_sheet)) 5) = 0
   \<and> (\<exists>p. examine_soccer (only_at CwdResources (book_of header_only_sheet)) 5
            = Inl (ZeroDivisionError, p))
   \<and> exit_code (examine_soccer (only_at CwdResources (book_of header_only_sheet)) 5) = 1"
proof -
  have rows: "max_row (sheet sample_state) = 2" "out sample_state = []"
    "nulls_in (sheet sample_state) 6 (py_range 2 3) = 1"
    by (simp_all add: sample_state_def sample_sheet_def nulls_in_def py_range_def)
  have one: "max_row (sheet (sample_state\<lparr>sheet := header_only_sheet\<rparr>)) = 1"
    "out (sample_state\<lparr>sheet := header_only_sheet\<rparr>) = []"
    by (simp_all add: sample_state_def header_only_sheet_def)
  have found: "only_at CwdResources (book_of sh) CwdResources = Some (Xlsx (book_of sh))" for sh
    by (simp add: only_at_def)
  have lookup: "wb_getitem (book_of sample_sheet) ''soccer'' = Inr sample_sheet"
    "wb_getitem (book_of header_only_sheet) ''soccer'' = Inr header_only_sheet"
    by (simp_all add: wb_getitem_def book_of_def sample_sheet_def header_only_sheet_def)
  have extents: "max_row sample_sheet = 2" "max_row header_only_sheet = 1"
    by (simp_all add: sample_sheet_def header_only_sheet_def)
  show ?thesis
    using null_percentage_division[where c = 6 and s = sample_state
        and fs = "only_at CwdResources (book_of sample_sheet)"
        and wb = "book_of sample_sheet" and ws = sample_sheet and d = 5]
      null_percentage_division[where c = 6 and s = "sample_state\<lparr>sheet := header_only_sheet\<rparr>"
        and fs = "only_at CwdResources (book_of header_only_sheet)"
        and wb = "book_of header_only_sheet" and ws = header_only_sheet and d = 5]
    by (simp add: rows one found lookup extents)
qed

section \<open>Two runs on the same workbook\<close>

lemma but_today_append [simp]: "but_today (xs @ ys) = but_today xs @ but_today ys"
  by (simp add: but_today_def)

lemma same_but_today_print:
  "same_but_today s t \<Longrightarrow> but_today [l] = but_today [l'] \<Longrightarrow>
   same_but_today (print l s) (print l' t)"
  by (simp add: same_but_today_def)

lemma same_but_today_prints:
  "same_but_today s t \<Longrightarrow> but_today ls = but_today ls' \<Longrightarrow>
   same_but_today (prints ls s) (prints ls' t)"
  by (simp add: same_but_today_def)

lemma runs_alike_Inr [simp]: "runs_alike (Inr s) (Inr t) = same_but_today s t"
  by (simp add: runs_alike_def)

lemma for_each_alike:
  assumes "\<And>x s t. same_but_today s t \<Longrightarrow> runs_alike (f x s) (g x t)"
    and "same_but_today s t"
  shows "runs_alike (for_each xs f s) (for_each xs g t)"
  using assms(2)
proof (induction xs arbitrary: s t)
  case Nil
  then show ?case by simp
next
  case (Cons x xs)
  have step: "runs_alike (f x s) (g x t)" using assms(1) Cons.prems by blast
  show ?case
  proof (cases "f x s")
    case (Inl a)
    with step show ?thesis by (auto simp: runs_alike_def split: sum.splits prod.splits)
  next
    case (Inr s1)
    with step obtain t1 where t1: "g x t = Inr t1" "same_but_today s1 t1"
      by (auto simp: runs_alike_def split: sum.splits prod.splits)
    with Inr Cons.IH[of s1 t1] show ?thesis by simp
  qed
qed

lemma then_run_alike:
  assumes "runs_alike m m'"
    and "\<And>s t. same_but_today s t \<Longrightarrow> runs_alike (k s) (k' t)"
  shows "runs_alike (then_run m k) (then_run m' k')"
proof (cases m)
  case (Inl a)
  with assms(1) show ?thesis
    by (auto simp: runs_alike_def then_run_def split: sum.splits prod.splits)
next
  case (Inr s)
  with assms(1) obtain t where "m' = Inr t" "same_but_today s t"
    by (auto simp: runs_alike_def split: sum.splits prod.splits)
  with Inr assms(2) show ?thesis by (simp add: then_run_def)
qed

lemma header_row_alike:
  "same_but_today s t \<Longrightarrow> runs_alike (header_row c s) (header_row c t)"
  by (auto simp: header_row_def raise_in_def runs_alike_def same_but_today_def
      split: sum.splits prod.splits)

lemma mapping_row_alike:
  "same_but_today s t \<Longrightarrow> runs_alike (mapping_row dflt item s) (mapping_row dflt item t)"
  by (auto simp: mapping_row_def raise_in_def runs_alike_def same_but_today_def
      split: sum.splits prod.splits)

lemma mapping_report_alike:
  "same_but_today s t \<Longrightarrow> runs_alike (mapping_report dflt cm s) (mapping_report dflt cm t)"
  unfolding mapping_report_def by (rule for_each_alike) (simp_all add: mapping_row_alike)

lemma today_row_alike:
  "same_but_today s t \<Longrightarrow> runs_alike (today_row d1 row s) (today_row d2 row t)"
  by (auto simp: today_row_def raise_in_def today_step_eq runs_alike_def same_but_today_def
      split: sum.splits prod.splits)

lemma count_today_alike:
  assumes "same_but_today s t"
  shows "runs_alike (count_today d1 s) (count_today d2 t)"
proof -
  have sheets: "sheet s = sheet t" using assms by (simp add: same_but_today_def)
  show ?thesis
    unfolding count_today_def sheets
    by (rule for_each_alike) (simp_all add: today_row_alike assms)
qed

lemma sample_field_excel_alike:
  "same_but_today s t \<Longrightarrow> runs_alike (sample_field_excel row c s) (sample_field_excel row c t)"
  by (auto simp: sample_field_excel_def raise_in_def runs_alike_def same_but_today_def
      split: sum.splits prod.splits)

lemma sample_row_excel_alike:
  assumes "same_but_today s t"
  shows "runs_alike (sample_row_excel row s) (sample_row_excel row t)"
proof -
  have sheets: "sheet s = sheet t" using assms by (simp add: same_but_today_def)
  have titled: "same_but_today (print (RowTitle row) s) (print (RowTitle row) t)"
    using assms by (simp add: same_but_today_print)
  show ?thesis
    unfolding sample_row_excel_def sheets
    by (rule for_each_alike) (simp_all add: sample_field_excel_alike titled)
qed

lemma sample_field_soccer_alike:
  "same_but_today s t \<Longrightarrow> runs_alike (sample_field_soccer row c s) (sample_field_soccer row c t)"
  by (auto simp: sample_field_soccer_def raise_in_def runs_alike_def same_but_today_def
      split: sum.splits prod.splits)

lemma sample_row_soccer_alike:
  assumes "same_but_today s t"
  shows "runs_alike (sample_row_soccer row s) (sample_row_soccer row t)"
proof -
  have titled: "same_but_today (print (RowTitle row) s) (print (RowTitle row) t)"
    using assms by (simp add: same_but_today_print)
  show ?thesis
    unfolding sample_row_soccer_def
    by (rule for_each_alike) (simp_all add: sample_field_soccer_alike titled)
qed

lemma null_column_alike:
  "same_but_today s t \<Longrightarrow> runs_alike (null_column c s) (null_column c t)"
  by (auto simp: null_column_def raise_in_def runs_alike_def same_but_today_def
      split: sum.splits prod.splits)

lemma null_report_alike:
  "same_but_today s t \<Longrightarrow> runs_alike (null_report s) (null_report t)"
  unfolding null_report_def by (rule for_each_alike) (simp_all add: null_column_alike)

lemma sample_rows_excel_alike:
  assumes "same_but_today s t"
  shows "runs_alike
     (for_each (py_range 2 (min (max_row (sheet s) + 1) 7)) sample_row_excel (print l s))
     (for_each (py_range 2 (min (max_row (sheet t) + 1) 7)) sample_row_excel (print l t))"
proof -
  have sheets: "sheet s = sheet t" using assms by (simp add: same_but_today_def)
  show ?thesis
    unfolding sheets
    by (rule for_each_alike) (simp_all add: sample_row_excel_alike same_but_today_print assms)
qed

lemma sample_rows_soccer_alike:
  assumes "same_but_today s t"
  shows "runs_alike
     (for_each (py_range 2 (min (max_row (sheet s) + 1) 5)) sample_row_soccer (print l s))
     (for_each (py_range 2 (min (max_row (sheet t) + 1) 5)) sample_row_soccer (print l t))"
proof -
  have sheets: "sheet s = sheet t" using assms by (simp add: same_but_today_def)
  show ?thesis
    unfolding sheets
    by (rule for_each_alike) (simp_all add: sample_row_soccer_alike same_but_today_print assms)
qed

lemma same_sheet: "same_but_today s t \<Longrightarrow> sheet s = sheet t"
  by (simp add: same_but_today_def)

lemma examine_excel_alike:
  "runs_alike (examine_excel fs p d1 out0) (examine_excel fs p d2 out0)"
proof (cases "load_workbook fs p")
  case (Inl e)
  then show ?thesis by (simp add: examine_excel_def runs_alike_def)
next
  case (Inr wb)
  have start: "same_but_today s s" for s by (simp add: same_but_today_def)
  have last_stage: "runs_alike
      (then_run (count_today d1 (prints [Heading ''DATA STATISTICS:'',
                   TotalRows (max_row (sheet s) - 1)] s))
         (\<lambda>s5. Inr (prints [TodayLine d1 (today_count s5),
                             TotalMatches (max_row (sheet s) - 1)] s5)))
      (then_run (count_today d2 (prints [Heading ''DATA STATISTICS:'',
                   TotalRows (max_row (sheet t) - 1)] t))
         (\<lambda>s5. Inr (prints [TodayLine d2 (today_count s5),
                             TotalMatches (max_row (sheet t) - 1)] s5)))"
    if st: "same_but_today s t" for s t
  proof (rule then_run_alike)
    show "runs_alike
        (count_today d1 (prints [Heading ''DATA STATISTICS:'', TotalRows (max_row (sheet s) - 1)] s))
        (count_today d2 (prints [Heading ''DATA STATISTICS:'', TotalRows (max_row (sheet t) - 1)] t))"
      by (rule count_today_alike) (simp add: same_but_today_prints st same_sheet[OF st])
  next
    fix s5 t5 assume "same_but_today s5 t5"
    then show "runs_alike
        (Inr (prints [TodayLine d1 (today_count s5), TotalMatches (max_row (sheet s) - 1)] s5))
        (Inr (prints [TodayLine d2 (today_count t5), TotalMatches (max_row (sheet t) - 1)] t5))"
      by (simp add: same_but_today_prints same_sheet[OF st] but_today_def)
  qed
  have mapping_stage: "runs_alike
      (then_run (mapping_report ''N/A'' column_mapping_excel (prints ls s)) k1)
      (then_run (mapping_report ''N/A'' column_mapping_excel (prints ls t)) k2)"
    if "same_but_today s t" "\<And>s t. same_but_today s t \<Longrightarrow> runs_alike (k1 s) (k2 t)"
    for s t ls k1 k2
    by (rule then_run_alike) (simp_all add: mapping_report_alike same_but_today_prints that)
  have sample_stage: "runs_alike
      (then_run (for_each (py_range 2 (min (max_row (sheet s) + 1) 7)) sample_row_excel
                   (print l s)) k1)
      (then_run (for_each (py_range 2 (min (max_row (sheet t) + 1) 7)) sample_row_excel
                   (print l t)) k2)"
    if "same_but_today s t" "\<And>s t. same_but_today s t \<Longrightarrow> runs_alike (k1 s) (k2 t)"
    for s t l k1 k2
    by (rule then_run_alike) (simp_all add: sample_rows_excel_alike that)
  show ?thesis
    unfolding examine_excel_def Inr Let_def
    apply simp
    apply (rule then_run_alike)
     apply (rule for_each_alike)
      apply (erule header_row_alike)
     apply (rule start)
    apply (erule sample_stage)
    apply (erule mapping_stage)
    apply (erule last_stage)
    done
qed

lemma examine_soccer_alike:
  "runs_alike (examine_soccer fs d1) (examine_soccer fs d2)"
proof (cases "load_workbook fs CwdResources")
  case (Inl e)
  then show ?thesis by (simp add: examine_soccer_def runs_alike_def)
next
  case (Inr wb)
  show ?thesis
  proof (cases "wb_getitem wb ''soccer''")
    case (Inl e)
    then show ?thesis
      by (simp add: examine_soccer_def \<open>load_workbook fs CwdResources = Inr wb\<close> runs_alike_def)
  next
    case ws: (Inr ws)
    have start: "same_but_today s s" for s by (simp add: same_but_today_def)
    have null_stage: "runs_alike
        (then_run (null_report (prints [Heading ''STATISTICS:'',
                     TotalMatches (max_row (sheet s) - 1), TodayLine d1 (today_count s),
                     Heading ''DATA QUALITY ANALYSIS:''] s))
           (\<lambda>s6. Inr (print (Heading ''CONCLUSION:'') s6)))
        (then_run (null_report (prints [Heading ''STATISTICS:'',
                     TotalMatches (max_row (sheet t) - 1), TodayLine d2 (today_count t),
                     Heading ''DATA QUALITY ANALYSIS:''] t))
           (\<lambda>s6. Inr (print (Heading ''CONCLUSION:'') s6)))"
      if st: "same_but_today s t" for s t
    proof (rule then_run_alike)
      show "runs_alike
          (null_report (prints [Heading ''STATISTICS:'', TotalMatches (max_row (sheet s) - 1),
             TodayLine d1 (today_count s), Heading ''DATA QUALITY ANALYSIS:''] s))
          (null_report (prints [Heading ''STATISTICS:'', TotalMatches (max_row (sheet t) - 1),
             TodayLine d2 (today_count t), Heading ''DATA QUALITY ANALYSIS:''] t))"
        by (rule null_report_alike)
          (simp add: same_but_today_prints st same_sheet[OF st] but_today_def)
    next
      fix s6 t6 assume "same_but_today s6 t6"
      then show "runs_alike (Inr (print (Heading ''CONCLUSION:'') s6))
          (Inr (print (Heading ''CONCLUSION:'') t6))"
        by (simp add: same_but_today_print)
    qed
    have today_stage: "runs_alike (then_run (count_today d1 s) k1) (then_run (count_today d2 t) k2)"
      if "same_but_today s t" "\<And>s t. same_but_today s t \<Longrightarrow> runs_alike (k1 s) (k2 t)"
      for s t k1 k2
      by (rule then_run_alike) (simp_all add: count_today_alike that)
    have sample_stage: "runs_alike
        (then_run (for_each (py_range 2 (min (max_row (sheet s) + 1) 5)) sample_row_soccer
                     (print l s)) k1)
        (then_run (for_each (py_range 2 (min (max_row (sheet t) + 1) 5)) sample_row_soccer
                     (print l t)) k2)"
      if "same_but_today s t" "\<And>s t. same_but_today s t \<Longrightarrow> runs_alike (k1 s) (k2 t)"
      for s t l k1 k2
      by (rule then_run_alike) (simp_all add: sample_rows_soccer_alike that)
    have mapping_stage: "runs_alike
        (then_run (mapping_report ''OUT OF RANGE'' column_mapping_soccer (print l s)) k1)
        (then_run (mapping_report ''OUT OF RANGE'' column_mapping_soccer (print l t)) k2)"
      if "same_but_today s t" "\<And>s t. same_but_today s t \<Longrightarrow> runs_alike (k1 s) (k2 t)"
      for s t l k1 k2
      by (rule then_run_alike) (simp_all add: mapping_report_alike same_but_today_print that)
    show ?thesis
      unfolding examine_soccer_def Let_def
      apply (simp add: \<open>load_workbook fs CwdResources = Inr wb\<close> ws)
      apply (rule then_run_alike)
       apply (rule for_each_alike)
        apply (erule header_row_alike)
       apply (rule start)
      apply (erule mapping_stage)
      apply (erule sample_stage)
      apply (erule today_stage)
      apply (erule null_stage)
      done
  qed
qed

lemma run_excel_alike:
  "but_today (fst (run_excel fs p d1 out0)) = but_today (fst (run_excel fs p d2 out0))
   \<and> snd (run_excel fs p d1 out0) = snd (run_excel fs p d2 out0)"
  using examine_excel_alike[of fs p d1 out0 d2]
  by (auto simp: run_excel_def runs_alike_def same_but_today_def split: sum.splits prod.splits)

text \<open>
  C7, as the specification words it, fails: the count of today's matches depends on the
  day of the run. On the sample workbook, whose one match is on the fifth, a run on the
  fifth reports one match for today and a run on the sixth reports none.
\<close>

theorem rerun_counterexample:
  "TodayLine 5 1 \<in> set (fst (main_excel (only_at ScriptResources (book_of sample_sheet)) 5))
   \<and> TodayLine 6 0 \<in> set (fst (main_excel (only_at ScriptResources (book_of sample_sheet)) 6))
   \<and> main_excel (only_at ScriptResources (book_of sample_sheet)) 5
       \<noteq> main_excel (only_at ScriptResources (book_of sample_sheet)) 6"
  by code_simp

text \<open>
  C7, amended: two runs of an inspection on the same files print the same report, line by
  line, but for the line of today's matches, and end with the same exit status, whatever
  the days of the two runs; the headers and the row counts are among these lines. On the
  same day of the month the two runs agree on the line of today's matches as well.
\<close>

theorem rerun_same_report:
  "but_today (fst (main_excel fs d1)) = but_today (fst (main_excel fs d2))
   \<and> snd (main_excel fs d1) = snd (main_excel fs d2)
   \<and> but_today (printed (examine_soccer fs d1)) = but_today (printed (examine_soccer fs d2))
   \<and> exit_code (examine_soccer fs d1) = exit_code (examine_soccer fs d2)
   \<and> (d1 = d2 \<longrightarrow> main_excel fs d1 = main_excel fs d2
                  \<and> examine_soccer fs d1 = examine_soccer fs d2)"
proof -
  have excel: "but_today (fst (main_excel fs d1)) = but_today (fst (main_excel fs d2))
      \<and> snd (main_excel fs d1) = snd (main_excel fs d2)"
    using run_excel_alike[of fs _ d1 _ d2]
    by (auto simp: main_excel_def split: option.splits)
  have soccer: "but_today (printed (examine_soccer fs d1)) = but_today (printed (examine_soccer fs d2))
      \<and> exit_code (examine_soccer fs d1) = exit_code (examine_soccer fs d2)"
    using examine_soccer_alike[of fs d1 d2]
    by (auto simp: runs_alike_def same_but_today_def printed_def exit_code_def
        split: sum.splits prod.splits)
  from excel soccer show ?thesis by blast
qed

theorem rerun_same_report_witness:
  "but_today (fst (main_excel (only_at ScriptResources (book_of sample_sheet)) 5))
     = but_today (fst (main_excel (only_at ScriptResources (book_of sample_sheet)) 6))
   \<and> main_excel (only_at ScriptResources (book_of sample_sheet)) 5
     = main_excel (only_at ScriptResources (book_of sample_sheet)) 5
   \<and> examine_soccer (only_at CwdResources (book_of sample_sheet)) 5
     = examine_soccer (only_at CwdResources (book_of sample_sheet)) 5"
  using rerun_same_report[of "only_at ScriptResources (book_of sample_sheet)" 5 6]
    rerun_same_report[of "only_at ScriptResources (book_of sample_sheet)" 5 5]
    rerun_same_report[of "only_at CwdResources (book_of sample_sheet)" 5 5]
  by simp

end
